theory Spec2Isabelle
  imports Complex_Main "HOL-Library.Multiset"
begin

section \<open>Data model\<close>

text \<open>
  A row of the trade log. The column \<open>DataHora\<close> is a pandas timestamp: a count of
  nanoseconds since the epoch, from which \<open>.dt.date\<close>, \<open>.dt.hour\<close> and
  \<open>.dt.minute\<close> are derived. The column \<open>Lucro Liquido (pts)\<close> is the net result.
  Net results are modelled as real numbers: sums and comparisons are exact, and the
  rounding of binary floating point is outside the model. Every other column of the
  frame is carried along by the rows and lives in the extension part of the record.
  Rows without a timestamp are dropped when the log is loaded, so every row has one.
\<close>

record trade =
  DataHora :: int
  Lucro_Liquido :: real

definition ns_por_minuto :: int where
  "ns_por_minuto = 60000000000"

definition ns_por_hora :: int where
  "ns_por_hora = 3600000000000"

definition ns_por_dia :: int where
  "ns_por_dia = 86400000000000"

definition dt_date :: "int \<Rightarrow> int" where
  "dt_date ts = ts div ns_por_dia"

definition dt_hour :: "int \<Rightarrow> int" where
  "dt_hour ts = (ts mod ns_por_dia) div ns_por_hora"

definition dt_minute :: "int \<Rightarrow> int" where
  "dt_minute ts = (ts mod ns_por_hora) div ns_por_minuto"

definition dt_second :: "int \<Rightarrow> int" where
  "dt_second ts = (ts mod ns_por_minuto) div 1000000000"

text \<open>Builds the timestamp of day \<open>d\<close> (days since the epoch) at \<open>h:m:s\<close>.\<close>

definition carimbo :: "int \<Rightarrow> int \<Rightarrow> int \<Rightarrow> int \<Rightarrow> int" where
  "carimbo d h m s = d * ns_por_dia + h * ns_por_hora + m * ns_por_minuto + s * 1000000000"

section \<open>Window filter\<close>

text \<open>A \<open>datetime.time\<close> as the sidebar widgets return it.\<close>

record py_time =
  hour :: nat
  minute :: nat
  second :: nat

definition time_to_minutes :: "py_time \<Rightarrow> int" where
  "time_to_minutes t = int (hour t) * 60 + int (minute t)"

text \<open>
  \<open>mask_janela\<close> works on a whole column in the source; the model gives the mask's
  value at one row.
\<close>

definition mask_janela :: "int \<Rightarrow> int \<Rightarrow> int \<Rightarrow> bool" where
  "mask_janela mins ini fim =
     (if fim \<ge> ini then mins \<ge> ini \<and> mins \<le> fim else mins \<ge> ini \<or> mins \<le> fim)"

definition mins_abertura :: "'a trade_scheme \<Rightarrow> int" where
  "mins_abertura row = dt_hour (DataHora row) * 60 + dt_minute (DataHora row)"

definition janela_opcional :: "bool \<Rightarrow> py_time option \<Rightarrow> py_time option \<Rightarrow> int \<Rightarrow> bool" where
  "janela_opcional usar inicio fim mins =
     (if usar \<and> inicio \<noteq> None \<and> fim \<noteq> None
      then mask_janela mins (time_to_minutes (the inicio)) (time_to_minutes (the fim))
      else False)"

definition mask_final ::
  "py_time \<Rightarrow> py_time \<Rightarrow> bool \<Rightarrow> py_time option \<Rightarrow> py_time option \<Rightarrow>
   bool \<Rightarrow> py_time option \<Rightarrow> py_time option \<Rightarrow> 'a trade_scheme \<Rightarrow> bool" where
  "mask_final hora1_inicio hora1_fim usar_janela2 hora2_inicio hora2_fim
      usar_janela3 hora3_inicio hora3_fim row =
     (mask_janela (mins_abertura row) (time_to_minutes hora1_inicio) (time_to_minutes hora1_fim)
      \<or> janela_opcional usar_janela2 hora2_inicio hora2_fim (mins_abertura row)
      \<or> janela_opcional usar_janela3 hora3_inicio hora3_fim (mins_abertura row))"

text \<open>
  \<open>sort_values\<close> is modelled by the stable \<open>sort_key\<close>: pandas promises no order
  among rows of equal timestamp, and the model takes the one that keeps them as they were.
\<close>

definition filtrar_por_tres_janelas_abertura ::
  "'a trade_scheme list \<Rightarrow> py_time \<Rightarrow> py_time \<Rightarrow> bool \<Rightarrow> py_time option \<Rightarrow> py_time option \<Rightarrow>
   bool \<Rightarrow> py_time option \<Rightarrow> py_time option \<Rightarrow> 'a trade_scheme list" where
  "filtrar_por_tres_janelas_abertura df_in hora1_inicio hora1_fim usar_janela2 hora2_inicio hora2_fim
      usar_janela3 hora3_inicio hora3_fim =
     sort_key DataHora
       (filter (mask_final hora1_inicio hora1_fim usar_janela2 hora2_inicio hora2_fim
                  usar_janela3 hora3_inicio hora3_fim) df_in)"

subsection \<open>The window test as the specification words it\<close>

definition window_matches :: "int \<Rightarrow> int \<Rightarrow> int \<Rightarrow> bool" where
  "window_matches start_min end_min t =
     (if end_min \<ge> start_min then start_min \<le> t \<and> t \<le> end_min
      else t \<ge> start_min \<or> t \<le> end_min)"

section \<open>Summary\<close>



section \<open>Daily stop simulator\<close>

text \<open>
  The state of the replay of one day: \<open>saldo_acumulado\<close> and \<open>perdas_consecutivas\<close>.
  \<open>atualiza\<close> is the update of both after a row; \<open>deve_parar\<close> is the guard of the
  \<open>break\<close>.
\<close>

definition atualiza :: "real \<times> int \<Rightarrow> 'a trade_scheme \<Rightarrow> real \<times> int" where
  "atualiza st row =
     (fst st + Lucro_Liquido row, if Lucro_Liquido row < 0 then snd st + 1 else 0)"

definition deve_parar :: "real \<Rightarrow> real \<Rightarrow> int \<Rightarrow> real \<times> int \<Rightarrow> bool" where
  "deve_parar limite_perda objetivo_ganho loss_consecutivos st =
     (fst st \<ge> objetivo_ganho \<or> fst st \<le> - limite_perda \<or> snd st \<ge> loss_consecutivos)"

text \<open>
  The inner loop over the rows of one day. The list \<open>linhas\<close> is shared by all days:
  the loop receives it and returns it with the rows it appended.
\<close>

fun loop_dia ::
  "real \<Rightarrow> real \<Rightarrow> int \<Rightarrow> real \<times> int \<Rightarrow> 'a trade_scheme list \<Rightarrow> 'a trade_scheme list
   \<Rightarrow> 'a trade_scheme list" where
  "loop_dia limite_perda objetivo_ganho loss_consecutivos st linhas [] = linhas"
| "loop_dia limite_perda objetivo_ganho loss_consecutivos st linhas (row # grupo) =
     (let linhas' = linhas @ [row];
          st' = atualiza st row
      in if deve_parar limite_perda objetivo_ganho loss_consecutivos st' then linhas'
         else loop_dia limite_perda objetivo_ganho loss_consecutivos st' linhas' grupo)"

text \<open>
  \<open>groupby("Data")\<close> yields one group for each date that occurs, in ascending order
  of the date; a group holds the rows of its date in the order of the frame.
\<close>

definition Data :: "'a trade_scheme \<Rightarrow> int" where
  "Data row = dt_date (DataHora row)"

definition datas :: "'a trade_scheme list \<Rightarrow> int list" where
  "datas df = sort (remdups (map Data df))"

definition grupo_da_data :: "'a trade_scheme list \<Rightarrow> int \<Rightarrow> 'a trade_scheme list" where
  "grupo_da_data df d = filter (\<lambda>row. Data row = d) df"

definition linhas_simuladas ::
  "'a trade_scheme list \<Rightarrow> real \<Rightarrow> real \<Rightarrow> int \<Rightarrow> 'a trade_scheme list" where
  "linhas_simuladas df_in limite_perda objetivo_ganho loss_consecutivos =
     foldl (\<lambda>linhas d.
              loop_dia limite_perda objetivo_ganho loss_consecutivos (0, 0) linhas
                (sort_key DataHora (grupo_da_data df_in d)))
           [] (datas df_in)"

fun cumsum_desde :: "real \<Rightarrow> real list \<Rightarrow> real list" where
  "cumsum_desde acc [] = []"
| "cumsum_desde acc (x # xs) = (acc + x) # cumsum_desde (acc + x) xs"

definition cumsum :: "real list \<Rightarrow> real list" where
  "cumsum xs = cumsum_desde 0 xs"

text \<open>
  The frame the simulator returns: its rows, and the column \<open>Total Parcial (pts)\<close>
  when the frame has it. \<open>pd.DataFrame([])\<close> has no column at all.
\<close>

record 'a df_sim =
  linhas :: "'a trade_scheme list"
  Total_Parcial :: "real list option"

definition simular_stop_diario ::
  "'a trade_scheme list \<Rightarrow> real \<Rightarrow> real \<Rightarrow> int \<Rightarrow> 'a df_sim" where
  "simular_stop_diario df_in limite_perda objetivo_ganho loss_consecutivos =
     (let mantidas = linhas_simuladas df_in limite_perda objetivo_ganho loss_consecutivos
      in if length mantidas > 0
         then (let ordenadas = sort_key DataHora mantidas
               in \<lparr>linhas = ordenadas,
                   Total_Parcial = Some (cumsum (map Lucro_Liquido ordenadas))\<rparr>)
         else \<lparr>linhas = [], Total_Parcial = None\<rparr>)"

text \<open>The caller's \<open>df_stop\<close>: the simulator's frame, with the caller's own fallback.\<close>

definition df_stop :: "'a trade_scheme list \<Rightarrow> real \<Rightarrow> real \<Rightarrow> int \<Rightarrow> 'a df_sim" where
  "df_stop df_real limite_perda objetivo_ganho loss_consecutivos =
     (let d = simular_stop_diario df_real limite_perda objetivo_ganho loss_consecutivos
      in if length (linhas d) > 0 \<and> Total_Parcial d = None
         then d\<lparr>Total_Parcial := Some (cumsum (map Lucro_Liquido (linhas d)))\<rparr>
         else d)"

text \<open>The combined series: the window filter, then the simulator.\<close>

definition df_combo ::
  "'a trade_scheme list \<Rightarrow> py_time \<Rightarrow> py_time \<Rightarrow> bool \<Rightarrow> py_time option \<Rightarrow> py_time option \<Rightarrow>
   bool \<Rightarrow> py_time option \<Rightarrow> py_time option \<Rightarrow> real \<Rightarrow> real \<Rightarrow> int \<Rightarrow> 'a df_sim" where
  "df_combo df_real hora1_inicio hora1_fim usar_janela2 hora2_inicio hora2_fim
      usar_janela3 hora3_inicio hora3_fim limite_perda objetivo_ganho loss_consecutivos =
     simular_stop_diario
       (filtrar_por_tres_janelas_abertura df_real hora1_inicio hora1_fim
          usar_janela2 hora2_inicio hora2_fim usar_janela3 hora3_inicio hora3_fim)
       limite_perda objetivo_ganho loss_consecutivos"

subsection \<open>The simulator as the specification words it\<close>

text \<open>
  After the first \<open>i + 1\<close> trades of a day \<open>g\<close>: the running balance, and the number
  of losing trades that end the sequence without interruption.
\<close>

definition saldo_ate :: "'a trade_scheme list \<Rightarrow> nat \<Rightarrow> real" where
  "saldo_ate g i = sum_list (map Lucro_Liquido (take (Suc i) g))"

definition perdas_ate :: "'a trade_scheme list \<Rightarrow> nat \<Rightarrow> int" where
  "perdas_ate g i = int (length (takeWhile (\<lambda>row. Lucro_Liquido row < 0) (rev (take (Suc i) g))))"

definition para_em :: "real \<Rightarrow> real \<Rightarrow> int \<Rightarrow> 'a trade_scheme list \<Rightarrow> nat \<Rightarrow> bool" where
  "para_em limite_perda objetivo_ganho loss_consecutivos g i =
     (saldo_ate g i \<ge> objetivo_ganho \<or> saldo_ate g i \<le> - limite_perda
      \<or> perdas_ate g i \<ge> loss_consecutivos)"

text \<open>A trade of the day is kept when no trade before it met a stop condition.\<close>

definition mantidas_do_dia ::
  "real \<Rightarrow> real \<Rightarrow> int \<Rightarrow> 'a trade_scheme list \<Rightarrow> 'a trade_scheme list" where
  "mantidas_do_dia limite_perda objetivo_ganho loss_consecutivos g =
     map (\<lambda>i. g ! i)
       (filter (\<lambda>i. \<forall>j \<in> set [0..<i]. \<not> para_em limite_perda objetivo_ganho loss_consecutivos g j)
          [0..<length g])"

definition simulate_daily_stop_spec ::
  "'a trade_scheme list \<Rightarrow> real \<Rightarrow> real \<Rightarrow> int \<Rightarrow> 'a trade_scheme list" where
  "simulate_daily_stop_spec series loss_limit gain_target max_consecutive_losses =
     concat (map (\<lambda>d. mantidas_do_dia loss_limit gain_target max_consecutive_losses
                         (sort_key DataHora (grupo_da_data series d)))
                 (datas series))"

section \<open>Time buckets\<close>

text \<open>
  What a computation of the bucket table can yield in place of a number: Python's
  \<open>ZeroDivisionError\<close> from \<open>/\<close>, or pandas' NaN from the mean of an empty column.
\<close>

datatype falha = ZeroDivisionError | NaN

definition py_truediv :: "real \<Rightarrow> real \<Rightarrow> falha + real" where
  "py_truediv a b = (if b = 0 then Inl ZeroDivisionError else Inr (a / b))"

definition series_mean :: "real list \<Rightarrow> falha + real" where
  "series_mean xs = (if xs = [] then Inl NaN else Inr (sum_list xs / real (length xs)))"

definition calc_expectancia :: "'a trade_scheme list \<Rightarrow> falha + real" where
  "calc_expectancia grupo =
     (let ganhos = filter (\<lambda>x. x > 0) (map Lucro_Liquido grupo);
          perdas = filter (\<lambda>x. x < 0) (map Lucro_Liquido grupo);
          n = length grupo
      in if n = 0 then Inr 0
         else
           case py_truediv (real (length ganhos)) (real n) of
             Inl e \<Rightarrow> Inl e
           | Inr winrate \<Rightarrow>
               (let lossrate = 1 - winrate
                in case (if length ganhos \<noteq> 0 then series_mean ganhos else Inr 0) of
                     Inl e \<Rightarrow> Inl e
                   | Inr avg_gain \<Rightarrow>
                       (case (if length perdas \<noteq> 0 then map_sum id abs (series_mean perdas)
                              else Inr 0) of
                          Inl e \<Rightarrow> Inl e
                        | Inr avg_loss \<Rightarrow> Inr (winrate * avg_gain - lossrate * avg_loss))))"

definition min_do_dia :: "'a trade_scheme \<Rightarrow> int" where
  "min_do_dia row = dt_hour (DataHora row) * 60 + dt_minute (DataHora row)"

definition slot_15m :: "'a trade_scheme \<Rightarrow> int" where
  "slot_15m row = min_do_dia row div 15"

text \<open>
  A row of a bucket table. The label of a bucket is a function of its index, so grouping
  by index and label is grouping by index; the label is left out.
\<close>

record linha_faixa =
  ordem_faixa :: int
  Soma :: real
  Expectancia :: "falha + real"
  Qtd_Ops :: nat
  Taxa_Acerto :: "falha + real"

definition estatisticas :: "int \<Rightarrow> 'a trade_scheme list \<Rightarrow> linha_faixa" where
  "estatisticas k g =
     \<lparr>ordem_faixa = k,
      Soma = sum_list (map Lucro_Liquido g),
      Expectancia = calc_expectancia g,
      Qtd_Ops = length g,
      Taxa_Acerto =
        map_sum id (\<lambda>m. m * 100)
          (series_mean (map (\<lambda>row. if Lucro_Liquido row > 0 then 1 else 0) g))\<rparr>"

text \<open>
  \<open>groupby(...).apply(...)\<close>: one row for each key that occurs in the frame, in
  ascending order of the key, computed from the rows of that key.
\<close>

definition agrega :: "('a trade_scheme \<Rightarrow> int) \<Rightarrow> 'a trade_scheme list \<Rightarrow> linha_faixa list" where
  "agrega slot df_tmp =
     sort_key ordem_faixa
       (map (\<lambda>k. estatisticas k (filter (\<lambda>row. slot row = k) df_tmp))
            (sort (remdups (map slot df_tmp))))"

definition df_hor_15 :: "'a trade_scheme list \<Rightarrow> linha_faixa list" where
  "df_hor_15 df_tmp = agrega slot_15m df_tmp"

section \<open>Time of day\<close>

lemma hora_do_dia:
  fixes ts :: int
  shows "ts mod 3600000000000 = (ts mod 86400000000000) mod 3600000000000"
  by (simp add: mod_mod_cancel)

lemma minuto_do_dia:
  fixes t :: int
  shows "(t div 3600000000000) * 60 + (t mod 3600000000000) div 60000000000 = t div 60000000000"
proof -
  have "t = (t div 3600000000000) * 60 * 60000000000 + t mod 3600000000000"
    by simp
  then have "t div 60000000000
      = ((t div 3600000000000) * 60 * 60000000000 + t mod 3600000000000) div 60000000000"
    by simp
  also have "\<dots> = (t div 3600000000000) * 60 + (t mod 3600000000000) div 60000000000"
    by (rule div_mult_self3) simp
  finally show ?thesis by simp
qed

lemma mins_abertura_eq:
  "mins_abertura row = (DataHora row mod ns_por_dia) div ns_por_minuto"
proof -
  have "mins_abertura row
      = ((DataHora row mod 86400000000000) div 3600000000000) * 60
        + ((DataHora row mod 86400000000000) mod 3600000000000) div 60000000000"
    unfolding mins_abertura_def dt_hour_def dt_minute_def ns_por_dia_def ns_por_hora_def
      ns_por_minuto_def
    by (simp only: hora_do_dia [symmetric])
  also have "\<dots> = (DataHora row mod 86400000000000) div 60000000000"
    by (rule minuto_do_dia)
  finally show ?thesis by (simp add: ns_por_dia_def ns_por_minuto_def)
qed

lemma mins_abertura_range: "0 \<le> mins_abertura row \<and> mins_abertura row \<le> 1439"
proof -
  define t where "t = DataHora row mod 86400000000000"
  have "0 \<le> t" and "t < 86400000000000" by (simp_all add: t_def)
  then have "0 \<le> t div 60000000000 \<and> t div 60000000000 < 1440"
    by (simp add: pos_imp_zdiv_nonneg_iff div_less_iff_less_mult)
  then show ?thesis by (simp add: mins_abertura_eq t_def ns_por_dia_def ns_por_minuto_def)
qed

section \<open>Window filter: which trades are kept\<close>

lemma mask_janela_matches: "mask_janela t ini fim = window_matches ini fim t"
  by (simp add: mask_janela_def window_matches_def)

lemma janela_opcional_iff:
  "janela_opcional usar inicio fim t \<longleftrightarrow>
     (usar \<and> (\<exists>a b. inicio = Some a \<and> fim = Some b
               \<and> window_matches (time_to_minutes a) (time_to_minutes b) t))"
  by (cases inicio; cases fim) (simp_all add: janela_opcional_def mask_janela_matches)

lemma mask_final_iff:
  "mask_final h1i h1f u2 h2i h2f u3 h3i h3f row \<longleftrightarrow>
     (window_matches (time_to_minutes h1i) (time_to_minutes h1f) (mins_abertura row)
      \<or> (u2 \<and> (\<exists>a b. h2i = Some a \<and> h2f = Some b
               \<and> window_matches (time_to_minutes a) (time_to_minutes b) (mins_abertura row)))
      \<or> (u3 \<and> (\<exists>a b. h3i = Some a \<and> h3f = Some b
               \<and> window_matches (time_to_minutes a) (time_to_minutes b) (mins_abertura row))))"
  unfolding mask_final_def by (simp only: janela_opcional_iff mask_janela_matches)

text \<open>
  C2. The window filter keeps exactly the trades (with their multiplicity) whose entry
  time of day, in minutes since midnight, lies in window 1 or in an optional window that
  is switched on and has both bounds: a window matches \<open>start \<le> t \<le> end\<close> when
  \<open>end \<ge> start\<close>, and \<open>t \<ge> start \<or> t \<le> end\<close> when it wraps midnight. The time
  of day of every trade is between 0 and 1439, and the result is in ascending entry time.
\<close>

theorem filtrar_keeps_iff:
  "mset (filtrar_por_tres_janelas_abertura df_in h1i h1f u2 h2i h2f u3 h3i h3f) =
     filter_mset
       (\<lambda>row. window_matches (time_to_minutes h1i) (time_to_minutes h1f) (mins_abertura row)
          \<or> (u2 \<and> (\<exists>a b. h2i = Some a \<and> h2f = Some b
                   \<and> window_matches (time_to_minutes a) (time_to_minutes b) (mins_abertura row)))
          \<or> (u3 \<and> (\<exists>a b. h3i = Some a \<and> h3f = Some b
                   \<and> window_matches (time_to_minutes a) (time_to_minutes b) (mins_abertura row))))
       (mset df_in)
   \<and> (\<forall>row \<in> set df_in. 0 \<le> mins_abertura row \<and> mins_abertura row \<le> 1439)
   \<and> sorted (map DataHora (filtrar_por_tres_janelas_abertura df_in h1i h1f u2 h2i h2f u3 h3i h3f))"
proof -
  let ?P = "\<lambda>row. window_matches (time_to_minutes h1i) (time_to_minutes h1f) (mins_abertura row)
          \<or> (u2 \<and> (\<exists>a b. h2i = Some a \<and> h2f = Some b
                   \<and> window_matches (time_to_minutes a) (time_to_minutes b) (mins_abertura row)))
          \<or> (u3 \<and> (\<exists>a b. h3i = Some a \<and> h3f = Some b
                   \<and> window_matches (time_to_minutes a) (time_to_minutes b) (mins_abertura row)))"
  have eq: "mask_final h1i h1f u2 h2i h2f u3 h3i h3f = ?P"
    by (rule ext) (rule mask_final_iff)
  have kept: "mset (filtrar_por_tres_janelas_abertura df_in h1i h1f u2 h2i h2f u3 h3i h3f)
      = filter_mset ?P (mset df_in)"
    unfolding filtrar_por_tres_janelas_abertura_def eq by (simp only: mset_sort mset_filter)
  have range: "\<forall>row \<in> set df_in. 0 \<le> mins_abertura row \<and> mins_abertura row \<le> 1439"
    by (simp add: mins_abertura_range)
  have ordered:
    "sorted (map DataHora (filtrar_por_tres_janelas_abertura df_in h1i h1f u2 h2i h2f u3 h3i h3f))"
    unfolding filtrar_por_tres_janelas_abertura_def by (rule sorted_sort_key)
  from kept range ordered show ?thesis by (intro conjI)
qed
theorem filtrar_keeps_iff_witness:
  "mset (filtrar_por_tres_janelas_abertura
           [\<lparr>DataHora = carimbo 19000 12 0 0, Lucro_Liquido = 5\<rparr>,
            \<lparr>DataHora = carimbo 19000 23 0 0, Lucro_Liquido = - 3\<rparr>,
            \<lparr>DataHora = carimbo 19001 1 0 0, Lucro_Liquido = 8\<rparr>]
           \<lparr>hour = 22, minute = 0, second = 0\<rparr> \<lparr>hour = 2, minute = 0, second = 0\<rparr>
           False None None False None None)
     = {#\<lparr>DataHora = carimbo 19000 23 0 0, Lucro_Liquido = - 3\<rparr>,
         \<lparr>DataHora = carimbo 19001 1 0 0, Lucro_Liquido = 8\<rparr>#}"
  using filtrar_keeps_iff [of
      "[\<lparr>DataHora = carimbo 19000 12 0 0, Lucro_Liquido = 5\<rparr>,
        \<lparr>DataHora = carimbo 19000 23 0 0, Lucro_Liquido = - 3\<rparr>,
        \<lparr>DataHora = carimbo 19001 1 0 0, Lucro_Liquido = 8\<rparr>]"
      "\<lparr>hour = 22, minute = 0, second = 0\<rparr>" "\<lparr>hour = 2, minute = 0, second = 0\<rparr>"
      False None None False None None]
  by (simp add: window_matches_def time_to_minutes_def mins_abertura_def dt_hour_def
      dt_minute_def carimbo_def ns_por_dia_def ns_por_hora_def ns_por_minuto_def)

section \<open>Window filter: seconds are discarded\<close>

lemma carimbo_mins:
  assumes "0 \<le> h" "h < 24" "0 \<le> m" "m < 60" "0 \<le> ns" "ns < ns_por_minuto"
    and "DataHora row = carimbo d h m 0 + ns"
  shows "mins_abertura row = h * 60 + m"
proof -
  define r where "r = (h * 60 + m) * 60000000000 + ns"
  have ts: "DataHora row = d * 86400000000000 + r"
    using assms(7) by (simp add: carimbo_def r_def ns_por_dia_def ns_por_hora_def ns_por_minuto_def algebra_simps)
  have r0: "0 \<le> r" using assms by (simp add: r_def)
  have "h * 60 + m \<le> 1439" using assms by simp
  then have "(h * 60 + m) * 60000000000 \<le> 1439 * 60000000000" by simp
  then have r1: "r < 86400000000000" using assms(6) by (simp add: r_def ns_por_minuto_def)
  have "DataHora row mod 86400000000000 = r"
    using r0 r1 by (simp add: ts)
  moreover have "r div 60000000000 = h * 60 + m"
    using assms(5,6) by (simp add: r_def ns_por_minuto_def)
  ultimately show ?thesis by (simp add: mins_abertura_eq ns_por_dia_def ns_por_minuto_def)
qed

text \<open>
  C9. The time of day of a trade is computed from the hour and the minute of its entry
  timestamp only: at whatever instant \<open>ns\<close> within the minute \<open>h:m\<close> the trade was
  opened, its time of day is \<open>h * 60 + m\<close>; so a trade opened within the minute at
  which window 1 ends is kept (10:45:59 against a window ending at 10:45).
\<close>

theorem seconds_discarded:
  assumes "0 \<le> h" "h < 24" "0 \<le> m" "m < 60" "0 \<le> ns" "ns < ns_por_minuto"
    and "DataHora row = carimbo d h m 0 + ns"
    and "time_to_minutes hora1_fim = h * 60 + m"
    and "row \<in> set df_in"
  shows "mins_abertura row = h * 60 + m
     \<and> row \<in> set (filtrar_por_tres_janelas_abertura df_in hora1_inicio hora1_fim
                      usar_janela2 hora2_inicio hora2_fim usar_janela3 hora3_inicio hora3_fim)"
proof -
  have m: "mins_abertura row = h * 60 + m"
    using assms(1-7) by (rule carimbo_mins)
  then have "mask_janela (mins_abertura row) (time_to_minutes hora1_inicio) (time_to_minutes hora1_fim)"
    using assms(8) by (simp add: mask_janela_def)
  then show ?thesis
    using m assms(9) by (simp add: filtrar_por_tres_janelas_abertura_def mask_final_def)
qed

theorem seconds_discarded_witness:
  "dt_second (carimbo 19000 10 45 59) = 59
   \<and> mins_abertura \<lparr>DataHora = carimbo 19000 10 45 59, Lucro_Liquido = 7.5\<rparr> = 645
   \<and> \<lparr>DataHora = carimbo 19000 10 45 59, Lucro_Liquido = 7.5\<rparr>
       \<in> set (filtrar_por_tres_janelas_abertura
                [\<lparr>DataHora = carimbo 19000 10 45 59, Lucro_Liquido = 7.5\<rparr>]
                \<lparr>hour = 9, minute = 0, second = 0\<rparr> \<lparr>hour = 10, minute = 45, second = 0\<rparr>
                False None None False None None)"
  using seconds_discarded [of 10 45 59000000000
      "\<lparr>DataHora = carimbo 19000 10 45 59, Lucro_Liquido = 7.5\<rparr>" 19000
      "\<lparr>hour = 10, minute = 45, second = 0\<rparr>"
      "[\<lparr>DataHora = carimbo 19000 10 45 59, Lucro_Liquido = 7.5\<rparr>]"
      "\<lparr>hour = 9, minute = 0, second = 0\<rparr>" False None None False None None]
  by (simp add: carimbo_def ns_por_dia_def ns_por_hora_def ns_por_minuto_def time_to_minutes_def
      dt_second_def)

section \<open>Summary: the profit factor\<close>





section \<open>Simulator: a result of zero\<close>

text \<open>
  C7. A trade whose net result is exactly 0 is not a loss: whatever the state of the
  replay before it, hence at every position of a day, the balance is unchanged and the
  count of consecutive losses is 0 after it, and the replay goes on (or stops) with that
  count at 0.
\<close>

theorem zero_result_resets_streak:
  assumes "Lucro_Liquido row = 0"
  shows "atualiza st row = (fst st, 0)
     \<and> snd (foldl atualiza (0, 0) (antes @ [row])) = 0
     \<and> perdas_ate (antes @ row # depois) (length antes) = 0
     \<and> loop_dia limite_perda objetivo_ganho loss_consecutivos st acc (row # grupo) =
         (if fst st \<ge> objetivo_ganho \<or> fst st \<le> - limite_perda \<or> 0 \<ge> loss_consecutivos
          then acc @ [row]
          else loop_dia limite_perda objetivo_ganho loss_consecutivos (fst st, 0) (acc @ [row]) grupo)"
proof -
  have a: "atualiza st' row = (fst st', 0)" for st' :: "real \<times> int"
    using assms by (simp add: atualiza_def)
  have b: "snd (foldl atualiza (0, 0) (antes @ [row])) = 0"
    by (simp add: a)
  have "take (Suc (length antes)) (antes @ row # depois) = antes @ [row]"
    by simp
  then have c: "perdas_ate (antes @ row # depois) (length antes) = 0"
    unfolding perdas_ate_def using assms by simp
  have d: "loop_dia limite_perda objetivo_ganho loss_consecutivos st acc (row # grupo) =
         (if fst st \<ge> objetivo_ganho \<or> fst st \<le> - limite_perda \<or> 0 \<ge> loss_consecutivos
          then acc @ [row]
          else loop_dia limite_perda objetivo_ganho loss_consecutivos (fst st, 0) (acc @ [row]) grupo)"
    by (simp add: a deve_parar_def Let_def)
  from a b c d show ?thesis by simp
qed

theorem zero_result_resets_streak_witness:
  "atualiza (- 80, 2) \<lparr>DataHora = 5, Lucro_Liquido = 0\<rparr> = (- 80, 0)
   \<and> loop_dia 100 100 3 (0, 0) []
        [\<lparr>DataHora = 1, Lucro_Liquido = - 10\<rparr>, \<lparr>DataHora = 2, Lucro_Liquido = - 10\<rparr>,
         \<lparr>DataHora = 3, Lucro_Liquido = 0\<rparr>, \<lparr>DataHora = 4, Lucro_Liquido = - 10\<rparr>,
         \<lparr>DataHora = 5, Lucro_Liquido = - 10\<rparr>, \<lparr>DataHora = 6, Lucro_Liquido = - 10\<rparr>,
         \<lparr>DataHora = 7, Lucro_Liquido = - 10\<rparr>]
      = [\<lparr>DataHora = 1, Lucro_Liquido = - 10\<rparr>, \<lparr>DataHora = 2, Lucro_Liquido = - 10\<rparr>,
         \<lparr>DataHora = 3, Lucro_Liquido = 0\<rparr>, \<lparr>DataHora = 4, Lucro_Liquido = - 10\<rparr>,
         \<lparr>DataHora = 5, Lucro_Liquido = - 10\<rparr>, \<lparr>DataHora = 6, Lucro_Liquido = - 10\<rparr>]"
  using zero_result_resets_streak [of "\<lparr>DataHora = 5, Lucro_Liquido = 0\<rparr>" "(- 80, 2)"]
    zero_result_resets_streak [of "\<lparr>DataHora = 3, Lucro_Liquido = 0\<rparr>" "(- 20, 2)" "[]" "[]" 100 100 3
      "[\<lparr>DataHora = 1, Lucro_Liquido = - 10\<rparr>, \<lparr>DataHora = 2, Lucro_Liquido = - 10\<rparr>]"
      "[\<lparr>DataHora = 4, Lucro_Liquido = - 10\<rparr>,
         \<lparr>DataHora = 5, Lucro_Liquido = - 10\<rparr>, \<lparr>DataHora = 6, Lucro_Liquido = - 10\<rparr>,
         \<lparr>DataHora = 7, Lucro_Liquido = - 10\<rparr>]"]
  by (simp add: atualiza_def deve_parar_def)

section \<open>Simulator: the replay of a day\<close>

lemma loop_dia_acc:
  "loop_dia lp og lc st acc g = acc @ loop_dia lp og lc st [] g"
proof (induction g arbitrary: st acc)
  case Nil
  show ?case by simp
next
  case (Cons row g)
  have "loop_dia lp og lc (atualiza st row) (acc @ [row]) g
      = acc @ [row] @ loop_dia lp og lc (atualiza st row) [] g"
    using Cons.IH [of "atualiza st row" "acc @ [row]"] by simp
  moreover have "loop_dia lp og lc (atualiza st row) [row] g
      = [row] @ loop_dia lp og lc (atualiza st row) [] g"
    using Cons.IH [of "atualiza st row" "[row]"] by simp
  ultimately show ?case by (simp add: Let_def)
qed

lemma estado_apos:
  "foldl atualiza (0, 0) xs =
     (sum_list (map Lucro_Liquido xs),
      int (length (takeWhile (\<lambda>row. Lucro_Liquido row < 0) (rev xs))))"
  by (induction xs rule: rev_induct) (simp_all add: atualiza_def)

lemma deve_parar_para_em:
  "deve_parar lp og lc (foldl atualiza (0, 0) (take (Suc i) g)) = para_em lp og lc g i"
  by (simp add: estado_apos deve_parar_def para_em_def saldo_ate_def perdas_ate_def)

lemma loop_dia_desde:
  assumes "\<forall>j < length pre. \<not> para_em lp og lc (pre @ g) j"
  shows "loop_dia lp og lc (foldl atualiza (0, 0) pre) [] g =
     map (\<lambda>i. (pre @ g) ! i)
       (filter (\<lambda>i. \<forall>j \<in> set [0..<i]. \<not> para_em lp og lc (pre @ g) j)
          [length pre..<length pre + length g])"
  using assms
proof (induction g arbitrary: pre)
  case Nil
  show ?case by simp
next
  case (Cons row g)
  let ?n = "length pre"
  let ?G = "pre @ row # g"
  let ?P = "\<lambda>i. \<forall>j \<in> set [0..<i]. \<not> para_em lp og lc ?G j"
  let ?st = "atualiza (foldl atualiza (0, 0) pre) row"
  have st: "?st = foldl atualiza (0, 0) (take (Suc ?n) ?G)" by simp
  have stop: "deve_parar lp og lc ?st = para_em lp og lc ?G ?n"
    unfolding st by (rule deve_parar_para_em)
  have "[?n..<?n + Suc (length g)] = ?n # [Suc ?n..<?n + Suc (length g)]"
    by (rule upt_conv_Cons) simp
  then have upt: "[?n..<?n + length (row # g)] = ?n # [Suc ?n..<Suc ?n + length g]"
    by simp
  have Pn: "?P ?n" using Cons.prems by simp
  have head: "map (\<lambda>i. ?G ! i) (filter ?P [?n..<?n + length (row # g)])
      = row # map (\<lambda>i. ?G ! i) (filter ?P [Suc ?n..<Suc ?n + length g])"
    unfolding upt using Pn by simp
  show ?case
  proof (cases "para_em lp og lc ?G ?n")
    case True
    have "\<not> ?P i" if "i \<in> set [Suc ?n..<Suc ?n + length g]" for i
    proof -
      from that have "Suc ?n \<le> i" by (simp only: set_upt atLeastLessThan_iff)
      then have "?n \<in> set [0..<i]" by simp
      with True show ?thesis by blast
    qed
    then have "filter ?P [Suc ?n..<Suc ?n + length g] = []"
      by (simp only: filter_empty_conv) blast
    moreover have "loop_dia lp og lc (foldl atualiza (0, 0) pre) [] (row # g) = [row]"
      using True stop by (simp add: Let_def)
    ultimately show ?thesis unfolding head by simp
  next
    case False
    have pre': "\<forall>j < length (pre @ [row]). \<not> para_em lp og lc ((pre @ [row]) @ g) j"
      using Cons.prems False by (auto simp: less_Suc_eq)
    have "loop_dia lp og lc (foldl atualiza (0, 0) pre) [] (row # g)
        = loop_dia lp og lc ?st [row] g"
      using False stop by (simp add: Let_def)
    also have "\<dots> = row # loop_dia lp og lc (foldl atualiza (0, 0) (pre @ [row])) [] g"
      using loop_dia_acc [of lp og lc ?st "[row]" g] by simp
    also have "loop_dia lp og lc (foldl atualiza (0, 0) (pre @ [row])) [] g
        = map (\<lambda>i. ?G ! i) (filter ?P [Suc ?n..<Suc ?n + length g])"
      using Cons.IH [OF pre'] by simp
    finally show ?thesis unfolding head .
  qed
qed

lemma loop_dia_mantidas:
  "loop_dia lp og lc (0, 0) [] g = mantidas_do_dia lp og lc g"
  using loop_dia_desde [of "[]" lp og lc g] by (simp add: mantidas_do_dia_def)

lemma foldl_loop_dia:
  "foldl (\<lambda>linhas d. loop_dia lp og lc (0, 0) linhas (G d)) acc ds
     = acc @ concat (map (\<lambda>d. mantidas_do_dia lp og lc (G d)) ds)"
proof (induction ds arbitrary: acc)
  case Nil
  show ?case by simp
next
  case (Cons d ds)
  show ?case
    using Cons.IH [of "loop_dia lp og lc (0, 0) acc (G d)"]
      loop_dia_acc [of lp og lc "(0, 0)" acc "G d"]
    by (simp add: loop_dia_mantidas)
qed

lemma linhas_simuladas_spec:
  "linhas_simuladas df lp og lc = simulate_daily_stop_spec df lp og lc"
  unfolding linhas_simuladas_def simulate_daily_stop_spec_def
  by (simp add: foldl_loop_dia)

section \<open>Simulator: the output is the specification's\<close>

lemma mantidas_prefixo: "\<exists>k. loop_dia lp og lc st [] g = take k g"
proof (induction g arbitrary: st)
  case Nil
  show ?case by simp
next
  case (Cons row g)
  show ?case
  proof (cases "deve_parar lp og lc (atualiza st row)")
    case True
    then have "loop_dia lp og lc st [] (row # g) = take (Suc 0) (row # g)"
      by (simp add: Let_def)
    then show ?thesis by blast
  next
    case False
    obtain k where k: "loop_dia lp og lc (atualiza st row) [] g = take k g"
      using Cons.IH by blast
    have "loop_dia lp og lc st [] (row # g) = row # loop_dia lp og lc (atualiza st row) [] g"
      using False loop_dia_acc [of lp og lc "atualiza st row" "[row]" g] by (simp add: Let_def)
    then have "loop_dia lp og lc st [] (row # g) = take (Suc k) (row # g)"
      using k by simp
    then show ?thesis by blast
  qed
qed

lemma mantidas_do_dia_take: "\<exists>k. mantidas_do_dia lp og lc g = take k g"
  using mantidas_prefixo [of lp og lc "(0, 0)" g] by (simp add: loop_dia_mantidas)

lemma sorted_mantidas:
  "sorted (map DataHora (mantidas_do_dia lp og lc (sort_key DataHora g)))"
proof -
  obtain k where "mantidas_do_dia lp og lc (sort_key DataHora g) = take k (sort_key DataHora g)"
    using mantidas_do_dia_take by blast
  then have "map DataHora (mantidas_do_dia lp og lc (sort_key DataHora g))
      = take k (map DataHora (sort_key DataHora g))"
    by (simp add: take_map)
  then show ?thesis by (simp add: sorted_wrt_take)
qed

lemma set_mantidas: "set (mantidas_do_dia lp og lc g) \<subseteq> set g"
proof -
  obtain k where "mantidas_do_dia lp og lc g = take k g"
    using mantidas_do_dia_take by blast
  then show ?thesis by (simp add: set_take_subset)
qed

lemma Data_mono: "Data a < Data b \<Longrightarrow> DataHora a \<le> DataHora b"
proof (rule ccontr)
  assume lt: "Data a < Data b" and "\<not> DataHora a \<le> DataHora b"
  then have "DataHora b \<le> DataHora a" by simp
  then have "DataHora b div ns_por_dia \<le> DataHora a div ns_por_dia"
    by (rule zdiv_mono1) (simp add: ns_por_dia_def)
  with lt show False by (simp add: Data_def dt_date_def)
qed

lemma sorted_concat_dias:
  assumes "sorted ds" "distinct ds"
    and "\<And>d. sorted (map DataHora (K d))"
    and "\<And>d row. row \<in> set (K d) \<Longrightarrow> Data row = d"
  shows "sorted (map DataHora (concat (map K ds)))"
  using assms(1,2)
proof (induction ds)
  case Nil
  show ?case by simp
next
  case (Cons d ds)
  have "DataHora a \<le> DataHora b"
    if "a \<in> set (K d)" and "b \<in> set (K d')" and "d' \<in> set ds" for a b d'
  proof -
    have "d < d'" using Cons.prems that(3) by (auto simp: le_less)
    then have "Data a < Data b" using that assms(4) by simp
    then show ?thesis by (rule Data_mono)
  qed
  then show ?case
    using Cons assms(3) by (auto simp: sorted_append)
qed

lemma sorted_spec:
  "sorted (map DataHora (simulate_daily_stop_spec df lp og lc))"
  unfolding simulate_daily_stop_spec_def
proof (rule sorted_concat_dias)
  show "sorted (datas df)" by (simp add: datas_def)
  show "distinct (datas df)" by (simp add: datas_def)
  show "sorted (map DataHora (mantidas_do_dia lp og lc (sort_key DataHora (grupo_da_data df d))))" for d
    by (rule sorted_mantidas)
  show "Data row = d"
    if "row \<in> set (mantidas_do_dia lp og lc (sort_key DataHora (grupo_da_data df d)))" for d row
    using that set_mantidas [of lp og lc "sort_key DataHora (grupo_da_data df d)"]
    by (auto simp: grupo_da_data_def)
qed

lemma linhas_simular:
  "linhas (simular_stop_diario df lp og lc) = simulate_daily_stop_spec df lp og lc"
proof (cases "linhas_simuladas df lp og lc = []")
  case True
  then show ?thesis by (simp add: simular_stop_diario_def linhas_simuladas_spec [symmetric])
next
  case False
  then have "linhas (simular_stop_diario df lp og lc)
      = sort_key DataHora (simulate_daily_stop_spec df lp og lc)"
    by (simp add: simular_stop_diario_def Let_def linhas_simuladas_spec)
  also have "\<dots> = simulate_daily_stop_spec df lp og lc"
    by (rule sort_key_id_if_sorted) (rule sorted_spec)
  finally show ?thesis .
qed

section \<open>Simulator: kept trades are trades of the input\<close>

lemma mset_grupos_gen:
  "distinct ks \<Longrightarrow>
     mset (concat (map (\<lambda>k. filter (\<lambda>x. key x = k) xs) ks))
       = filter_mset (\<lambda>x. key x \<in> set ks) (mset xs)"
proof (induction ks)
  case Nil
  show ?case by simp
next
  case (Cons k ks)
  then have "k \<notin> set ks" and IH: "mset (concat (map (\<lambda>k. filter (\<lambda>x. key x = k) xs) ks))
       = filter_mset (\<lambda>x. key x \<in> set ks) (mset xs)"
    by simp_all
  have "filter_mset (\<lambda>x. key x = k) (mset xs) + filter_mset (\<lambda>x. key x \<in> set ks) (mset xs)
      = filter_mset (\<lambda>x. key x \<in> set (k # ks)) (mset xs)"
    using \<open>k \<notin> set ks\<close> by (auto simp: multiset_eq_iff)
  then show ?case by (simp add: IH)
qed

lemma mset_grupos:
  assumes "distinct ks" and "key ` set xs \<subseteq> set ks"
  shows "mset (concat (map (\<lambda>k. filter (\<lambda>x. key x = k) xs) ks)) = mset xs"
proof -
  have "filter_mset (\<lambda>x. key x \<in> set ks) (mset xs) = mset xs"
    using assms(2) by (intro filter_mset_eq_conv [THEN iffD2]) auto
  then show ?thesis using mset_grupos_gen [OF assms(1), of key xs] by simp
qed

lemma mset_grupos_datas:
  "mset (concat (map (grupo_da_data df) (datas df))) = mset df"
proof -
  have "mset (concat (map (\<lambda>k. filter (\<lambda>x. Data x = k) df) (datas df))) = mset df"
    by (rule mset_grupos) (simp_all add: datas_def)
  then show ?thesis by (simp add: grupo_da_data_def [abs_def])
qed

lemma mset_concat_mono:
  "(\<And>d. mset (K d) \<subseteq># mset (G d)) \<Longrightarrow>
     mset (concat (map K ds)) \<subseteq># mset (concat (map G ds))"
  by (induction ds) (simp_all add: subset_mset.add_mono)

lemma mset_mantidas: "mset (mantidas_do_dia lp og lc (sort_key DataHora g)) \<subseteq># mset g"
proof -
  obtain k where "mantidas_do_dia lp og lc (sort_key DataHora g) = take k (sort_key DataHora g)"
    using mantidas_do_dia_take by blast
  moreover have "mset (take k (sort_key DataHora g)) \<subseteq># mset (sort_key DataHora g)"
    by (metis append_take_drop_id mset_append mset_subset_eq_add_left)
  ultimately show ?thesis by simp
qed

lemma mset_spec: "mset (simulate_daily_stop_spec df lp og lc) \<subseteq># mset df"
proof -
  have "mset (simulate_daily_stop_spec df lp og lc)
      \<subseteq># mset (concat (map (grupo_da_data df) (datas df)))"
    unfolding simulate_daily_stop_spec_def by (rule mset_concat_mono) (rule mset_mantidas)
  then show ?thesis by (simp only: mset_grupos_datas)
qed

lemma length_simular: "length (linhas (simular_stop_diario df lp og lc)) \<le> length df"
  using size_mset_mono [OF mset_spec [of df lp og lc]] by (simp add: linhas_simular)

text \<open>
  C6. For every series and every configuration, the combined series (window filter, then
  stop simulator) has at most as many trades as the window-filtered series, which has at
  most as many trades as the unfiltered series.
\<close>

theorem combined_le_window_le_all:
  "length (linhas (df_combo df_real hora1_inicio hora1_fim usar_janela2 hora2_inicio hora2_fim
              usar_janela3 hora3_inicio hora3_fim limite_perda objetivo_ganho loss_consecutivos))
     \<le> length (filtrar_por_tres_janelas_abertura df_real hora1_inicio hora1_fim
                  usar_janela2 hora2_inicio hora2_fim usar_janela3 hora3_inicio hora3_fim)
   \<and> length (filtrar_por_tres_janelas_abertura df_real hora1_inicio hora1_fim
                usar_janela2 hora2_inicio hora2_fim usar_janela3 hora3_inicio hora3_fim)
     \<le> length df_real"
  by (simp add: df_combo_def length_simular) (simp add: filtrar_por_tres_janelas_abertura_def)

theorem combined_le_window_le_all_witness:
  "length (linhas (df_combo
       [\<lparr>DataHora = 3, Lucro_Liquido = 10\<rparr>, \<lparr>DataHora = 1, Lucro_Liquido = - 5\<rparr>,
        \<lparr>DataHora = 86400000000007, Lucro_Liquido = 0\<rparr>]
       \<lparr>hour = 0, minute = 0, second = 0\<rparr> \<lparr>hour = 10, minute = 45, second = 0\<rparr>
       False None None False None None 0 0 1))
     \<le> length (filtrar_por_tres_janelas_abertura
       [\<lparr>DataHora = 3, Lucro_Liquido = 10\<rparr>, \<lparr>DataHora = 1, Lucro_Liquido = - 5\<rparr>,
        \<lparr>DataHora = 86400000000007, Lucro_Liquido = 0\<rparr>]
       \<lparr>hour = 0, minute = 0, second = 0\<rparr> \<lparr>hour = 10, minute = 45, second = 0\<rparr>
       False None None False None None)
   \<and> length (filtrar_por_tres_janelas_abertura
       [\<lparr>DataHora = 3, Lucro_Liquido = 10\<rparr>, \<lparr>DataHora = 1, Lucro_Liquido = - 5\<rparr>,
        \<lparr>DataHora = 86400000000007, Lucro_Liquido = 0\<rparr>]
       \<lparr>hour = 0, minute = 0, second = 0\<rparr> \<lparr>hour = 10, minute = 45, second = 0\<rparr>
       False None None False None None) \<le> 3"
  using combined_le_window_le_all [of
      "[\<lparr>DataHora = 3, Lucro_Liquido = 10\<rparr>, \<lparr>DataHora = 1, Lucro_Liquido = - 5\<rparr>,
        \<lparr>DataHora = 86400000000007, Lucro_Liquido = 0\<rparr>]"
      "\<lparr>hour = 0, minute = 0, second = 0\<rparr>" "\<lparr>hour = 10, minute = 45, second = 0\<rparr>"
      False None None False None None 0 0 1]
  by simp

section \<open>Simulator: the first trade of a day\<close>

lemma primeira_mantida:
  assumes "g \<noteq> []"
  shows "hd g \<in> set (mantidas_do_dia lp og lc g)"
proof -
  obtain row rest where g: "g = row # rest" using assms by (cases g) auto
  have "loop_dia lp og lc (0, 0) [] (row # rest)
      = row # (if deve_parar lp og lc (atualiza (0, 0) row) then []
               else loop_dia lp og lc (atualiza (0, 0) row) [] rest)"
    using loop_dia_acc [of lp og lc "atualiza (0, 0) row" "[row]" rest] by (simp add: Let_def)
  then show ?thesis by (simp add: g loop_dia_mantidas [symmetric])
qed

lemma primeira_do_dia:
  assumes "row \<in> set df"
  shows "hd (sort_key DataHora (grupo_da_data df (Data row)))
     \<in> set (linhas (simular_stop_diario df lp og lc))"
proof -
  let ?g = "sort_key DataHora (grupo_da_data df (Data row))"
  have "row \<in> set ?g" using assms by (simp add: grupo_da_data_def)
  then have "?g \<noteq> []" by (metis empty_iff list.set(1))
  then have "hd ?g \<in> set (mantidas_do_dia lp og lc ?g)" by (rule primeira_mantida)
  moreover have "Data row \<in> set (datas df)" using assms by (simp add: datas_def)
  ultimately show ?thesis
    unfolding linhas_simular simulate_daily_stop_spec_def by auto
qed

lemma simular_nao_vazio:
  assumes "df \<noteq> []"
  shows "linhas (simular_stop_diario df lp og lc) \<noteq> []"
proof -
  from assms obtain row where "row \<in> set df" by (cases df) auto
  then have "hd (sort_key DataHora (grupo_da_data df (Data row)))
      \<in> set (linhas (simular_stop_diario df lp og lc))"
    by (rule primeira_do_dia)
  then show ?thesis by fastforce
qed



section \<open>Simulator: the running total column\<close>

lemma simular_vazio:
  "simular_stop_diario [] lp og lc = \<lparr>linhas = [], Total_Parcial = None\<rparr>"
  by (simp add: simular_stop_diario_def linhas_simuladas_def datas_def)

lemma simular_sem_linhas:
  "linhas_simuladas df lp og lc = [] \<Longrightarrow>
     simular_stop_diario df lp og lc = \<lparr>linhas = [], Total_Parcial = None\<rparr>"
  by (simp add: simular_stop_diario_def)

lemma simular_com_linhas:
  "linhas_simuladas df lp og lc \<noteq> [] \<Longrightarrow>
     simular_stop_diario df lp og lc =
       \<lparr>linhas = sort_key DataHora (linhas_simuladas df lp og lc),
        Total_Parcial =
          Some (cumsum (map Lucro_Liquido (sort_key DataHora (linhas_simuladas df lp og lc))))\<rparr>"
  by (simp add: simular_stop_diario_def Let_def)

lemma sort_key_nao_vazio: "xs \<noteq> [] \<Longrightarrow> sort_key f xs \<noteq> []"
  by (metis length_sort length_0_conv)

lemma total_parcial_casos:
  "(Total_Parcial (simular_stop_diario df lp og lc) \<noteq> None
      \<longleftrightarrow> linhas (simular_stop_diario df lp og lc) \<noteq> [])
   \<and> (linhas (simular_stop_diario df lp og lc) \<noteq> []
      \<longrightarrow> Total_Parcial (simular_stop_diario df lp og lc)
          = Some (cumsum (map Lucro_Liquido (linhas (simular_stop_diario df lp og lc)))))"
proof (cases "linhas_simuladas df lp og lc = []")
  case True
  show ?thesis unfolding simular_sem_linhas [OF True] by simp
next
  case False
  show ?thesis
    unfolding simular_com_linhas [OF False] using sort_key_nao_vazio [OF False, of DataHora]
    by simp
qed

lemma df_stop_simular: "df_stop df lp og lc = simular_stop_diario df lp og lc"
proof -
  have "\<not> (length (linhas (simular_stop_diario df lp og lc)) > 0
      \<and> Total_Parcial (simular_stop_diario df lp og lc) = None)"
    using total_parcial_casos [of df lp og lc] by auto
  then show ?thesis unfolding df_stop_def Let_def by (simp only: if_False)
qed

text \<open>
  C10. The frame the simulator returns has the column of running totals exactly when it
  has at least one row, and the column then holds the cumulative sums of the net results
  of its rows; on the empty series the simulator returns an empty frame without that
  column, and the caller's fallback does not add it.
\<close>

theorem total_parcial_only_when_kept:
  "(Total_Parcial (simular_stop_diario df limite_perda objetivo_ganho loss_consecutivos) \<noteq> None
      \<longleftrightarrow> linhas (simular_stop_diario df limite_perda objetivo_ganho loss_consecutivos) \<noteq> [])
   \<and> (linhas (simular_stop_diario df limite_perda objetivo_ganho loss_consecutivos) \<noteq> []
      \<longrightarrow> Total_Parcial (simular_stop_diario df limite_perda objetivo_ganho loss_consecutivos)
          = Some (cumsum (map Lucro_Liquido
              (linhas (simular_stop_diario df limite_perda objetivo_ganho loss_consecutivos)))))
   \<and> simular_stop_diario ([] :: 'a trade_scheme list) limite_perda objetivo_ganho loss_consecutivos
        = \<lparr>linhas = [], Total_Parcial = None\<rparr>
   \<and> df_stop ([] :: 'a trade_scheme list) limite_perda objetivo_ganho loss_consecutivos
        = \<lparr>linhas = [], Total_Parcial = None\<rparr>
   \<and> df_stop df limite_perda objetivo_ganho loss_consecutivos
        = simular_stop_diario (df :: 'a trade_scheme list) limite_perda objetivo_ganho loss_consecutivos"
proof -
  have "df_stop ([] :: 'a trade_scheme list) limite_perda objetivo_ganho loss_consecutivos
      = \<lparr>linhas = [], Total_Parcial = None\<rparr>"
    by (simp only: df_stop_simular simular_vazio)
  then show ?thesis
    using total_parcial_casos [of df limite_perda objetivo_ganho loss_consecutivos]
      df_stop_simular [of df limite_perda objetivo_ganho loss_consecutivos]
      simular_vazio [of limite_perda objetivo_ganho loss_consecutivos, where ?'a = 'a]
    by blast
qed

theorem total_parcial_only_when_kept_witness:
  "Total_Parcial (simular_stop_diario
       [\<lparr>DataHora = 3, Lucro_Liquido = 10\<rparr>, \<lparr>DataHora = 1, Lucro_Liquido = - 5\<rparr>] 100 100 3)
     = Some (cumsum (map Lucro_Liquido (linhas (simular_stop_diario
       [\<lparr>DataHora = 3, Lucro_Liquido = 10\<rparr>, \<lparr>DataHora = 1, Lucro_Liquido = - 5\<rparr>] 100 100 3))))
   \<and> Total_Parcial (simular_stop_diario ([] :: trade list) 100 100 3) = None"
  using total_parcial_only_when_kept [of
      "[\<lparr>DataHora = 3, Lucro_Liquido = 10\<rparr>, \<lparr>DataHora = 1, Lucro_Liquido = - 5\<rparr>]" 100 100 3]
    simular_nao_vazio [of
      "[\<lparr>DataHora = 3, Lucro_Liquido = 10\<rparr>, \<lparr>DataHora = 1, Lucro_Liquido = - 5\<rparr>]" 100 100 3]
  by simp

section \<open>Simulator: refinement of the specification\<close>



section \<open>Time buckets: the sums of the table\<close>

lemma sum_list_sort_key:
  fixes f :: "'b \<Rightarrow> real"
  shows "sum_list (map f (sort_key k xs)) = sum_list (map f xs)"
proof -
  have "sum_mset (image_mset f (mset (sort_key k xs))) = sum_mset (image_mset f (mset xs))"
    by simp
  then show ?thesis by (simp only: mset_map [symmetric] sum_mset_sum_list)
qed



lemma chaves_agrega:
  "map ordem_faixa (agrega slot df) = sort (remdups (map slot df))"
proof -
  let ?ks = "sort (remdups (map slot df))"
  let ?rows = "map (\<lambda>k. estatisticas k (filter (\<lambda>row. slot row = k) df)) ?ks"
  have k: "map ordem_faixa ?rows = ?ks"
    by (simp add: estatisticas_def comp_def)
  then have "sorted (map ordem_faixa ?rows)" by simp
  then have "sort_key ordem_faixa ?rows = ?rows" by (rule sort_key_id_if_sorted)
  then show ?thesis unfolding agrega_def using k by simp
qed

lemma agrega_ordenada:
  "agrega slot df = map (\<lambda>k. estatisticas k (filter (\<lambda>row. slot row = k) df))
                      (sort (remdups (map slot df)))"
proof -
  let ?ks = "sort (remdups (map slot df))"
  let ?rows = "map (\<lambda>k. estatisticas k (filter (\<lambda>row. slot row = k) df)) ?ks"
  have "map ordem_faixa ?rows = ?ks"
    by (simp add: estatisticas_def comp_def)
  then have "sorted (map ordem_faixa ?rows)" by simp
  then have "sort_key ordem_faixa ?rows = ?rows" by (rule sort_key_id_if_sorted)
  then show ?thesis unfolding agrega_def .
qed




section \<open>Time buckets: the rows of the table\<close>

lemma calc_expectancia_vazio: "calc_expectancia [] = Inr 0"
  by (simp add: calc_expectancia_def)

lemma media_ok:
  "\<exists>a. (if length xs \<noteq> 0 then series_mean xs else Inr 0) = Inr a"
  by (simp add: series_mean_def)

lemma media_abs_ok:
  "\<exists>a. (if length xs \<noteq> 0 then map_sum id abs (series_mean xs) else Inr 0) = Inr a"
  by (simp add: series_mean_def)

lemma calc_expectancia_ok: "\<exists>v. calc_expectancia g = Inr v"
proof (cases "g = []")
  case True
  then show ?thesis by (simp add: calc_expectancia_vazio)
next
  case False
  define ganhos where "ganhos = filter (\<lambda>x. x > 0) (map Lucro_Liquido g)"
  define perdas where "perdas = filter (\<lambda>x. x < 0) (map Lucro_Liquido g)"
  obtain a where a: "(if length ganhos \<noteq> 0 then series_mean ganhos else Inr 0) = Inr a"
    using media_ok by blast
  obtain b where b: "(if length perdas \<noteq> 0 then map_sum id abs (series_mean perdas) else Inr 0) = Inr b"
    using media_abs_ok by blast
  have n: "(length g = 0) = False" using False by simp
  have w: "py_truediv (real (length ganhos)) (real (length g))
      = Inr (real (length ganhos) / real (length g))"
    using False by (simp add: py_truediv_def)
  have "calc_expectancia g
      = Inr (real (length ganhos) / real (length g) * a
             - (1 - real (length ganhos) / real (length g)) * b)"
    unfolding calc_expectancia_def Let_def ganhos_def [symmetric] perdas_def [symmetric]
    using n by (simp only: w a b if_False sum.case)
  then show ?thesis by blast
qed

lemma linhas_agrega:
  assumes "linha \<in> set (agrega slot df)"
  shows "Qtd_Ops linha = length (filter (\<lambda>row. slot row = ordem_faixa linha) df)
     \<and> 1 \<le> Qtd_Ops linha \<and> (\<exists>v. Expectancia linha = Inr v) \<and> (\<exists>v. Taxa_Acerto linha = Inr v)"
proof -
  from assms obtain k where k: "k \<in> slot ` set df"
    and l: "linha = estatisticas k (filter (\<lambda>row. slot row = k) df)"
    unfolding agrega_ordenada by auto
  from k have ne: "filter (\<lambda>row. slot row = k) df \<noteq> []"
    by (auto simp: filter_empty_conv)
  then have "1 \<le> length (filter (\<lambda>row. slot row = k) df)"
    by (simp add: Suc_le_eq)
  then show ?thesis
    using ne calc_expectancia_ok [of "filter (\<lambda>row. slot row = k) df"]
    by (simp add: l estatisticas_def series_mean_def)
qed

text \<open>
  C4, as the code has it. The 15-minute table has one row for each bucket that holds at
  least one trade of the series, in ascending order of the bucket, and no row for a
  bucket without trades: every row counts at least one trade, the trades of its bucket,
  and its expectancy is computed without a division by zero. On an empty group
  \<open>calc_expectancia\<close> returns 0.
\<close>

theorem bucket_table_rows:
  "map ordem_faixa (df_hor_15 df) = sort (remdups (map slot_15m df))
   \<and> (\<forall>linha \<in> set (df_hor_15 df).
         Qtd_Ops linha = length (filter (\<lambda>row. slot_15m row = ordem_faixa linha) df)
         \<and> 1 \<le> Qtd_Ops linha
         \<and> (\<exists>v. Expectancia linha = Inr v))
   \<and> calc_expectancia ([] :: 'a trade_scheme list) = Inr 0"
proof -
  have "\<forall>linha \<in> set (df_hor_15 df).
         Qtd_Ops linha = length (filter (\<lambda>row. slot_15m row = ordem_faixa linha) df)
         \<and> 1 \<le> Qtd_Ops linha
         \<and> (\<exists>v. Expectancia linha = Inr v)"
    unfolding df_hor_15_def using linhas_agrega [of _ slot_15m df] by blast
  moreover have "map ordem_faixa (df_hor_15 df) = sort (remdups (map slot_15m df))"
    unfolding df_hor_15_def by (rule chaves_agrega)
  ultimately show ?thesis using calc_expectancia_vazio by blast
qed

theorem bucket_table_rows_witness:
  "map ordem_faixa (df_hor_15
       [\<lparr>DataHora = 32400000000000, Lucro_Liquido = 10\<rparr>,
        \<lparr>DataHora = 32400000000001, Lucro_Liquido = - 4\<rparr>,
        \<lparr>DataHora = 0, Lucro_Liquido = - 4\<rparr>]) = [0, 36]
   \<and> 1 \<le> Qtd_Ops (hd (df_hor_15
       [\<lparr>DataHora = 32400000000000, Lucro_Liquido = 10\<rparr>,
        \<lparr>DataHora = 32400000000001, Lucro_Liquido = - 4\<rparr>,
        \<lparr>DataHora = 0, Lucro_Liquido = - 4\<rparr>]))
   \<and> Expectancia (hd (df_hor_15
       [\<lparr>DataHora = 32400000000000, Lucro_Liquido = 10\<rparr>,
        \<lparr>DataHora = 32400000000001, Lucro_Liquido = - 4\<rparr>,
        \<lparr>DataHora = 0, Lucro_Liquido = - 4\<rparr>])) \<noteq> Inl ZeroDivisionError"
proof -
  let ?S = "[\<lparr>DataHora = 32400000000000, Lucro_Liquido = 10\<rparr>,
        \<lparr>DataHora = 32400000000001, Lucro_Liquido = - 4\<rparr>,
        \<lparr>DataHora = 0, Lucro_Liquido = - 4\<rparr>] :: trade list"
  have keys: "sort (remdups (map slot_15m ?S)) = [0, 36]"
    by code_simp
  have all: "map ordem_faixa (df_hor_15 ?S) = sort (remdups (map slot_15m ?S))
     \<and> (\<forall>linha \<in> set (df_hor_15 ?S).
         Qtd_Ops linha = length (filter (\<lambda>row. slot_15m row = ordem_faixa linha) ?S)
         \<and> 1 \<le> Qtd_Ops linha
         \<and> (\<exists>v. Expectancia linha = Inr v))"
    using bucket_table_rows [of ?S] by blast
  then have k: "map ordem_faixa (df_hor_15 ?S) = [0, 36]"
    using keys by simp
  then have "df_hor_15 ?S \<noteq> []" by auto
  then have "hd (df_hor_15 ?S) \<in> set (df_hor_15 ?S)" by simp
  with all have "1 \<le> Qtd_Ops (hd (df_hor_15 ?S))
      \<and> (\<exists>v. Expectancia (hd (df_hor_15 ?S)) = Inr v)"
    by blast
  with k show ?thesis by auto
qed

text \<open>
  C4, as it is stated, fails: in the series of one trade opened at 09:00, bucket 0
  (00:00 to 00:14) holds no trade, and the table has no row for it.
\<close>

theorem bucket_table_rows_counterexample:
  "(0::int) \<notin> set (map slot_15m [\<lparr>DataHora = 32400000000000, Lucro_Liquido = 10\<rparr>])
   \<and> (0::int) \<notin> set (map ordem_faixa (df_hor_15 [\<lparr>DataHora = 32400000000000, Lucro_Liquido = 10\<rparr>]))"
  by code_simp

end
